theory Spec2Isabelle
  imports Complex_Main
begin

section \<open>The upload form of \<^verbatim>\<open>src/client/src/App.tsx\<close>\<close>

text \<open>
  The component \<^verbatim>\<open>App\<close> keeps two pieces of React state: \<^verbatim>\<open>files\<close>, an object with the
  four keys \<^verbatim>\<open>images\<close>, \<^verbatim>\<open>pdf\<close>, \<^verbatim>\<open>json\<close>, \<^verbatim>\<open>txt\<close>, each holding an array of files, and
  \<^verbatim>\<open>error\<close>. Three handlers change it: \<^verbatim>\<open>handleFileChange\<close>, \<^verbatim>\<open>removeFile\<close> and
  \<^verbatim>\<open>handleSubmit\<close>. Each handler is modelled as a function from the state before the call
  to the state after it; \<^verbatim>\<open>handleSubmit\<close> also returns the effects it had on the host
  (the request, the alert, the console trace), in the order in which they happened.
  A file is an opaque handle: the type variable \<open>'f\<close>.
\<close>

subsection \<open>JavaScript values\<close>

text \<open>
  The parsed response body is of type \<^verbatim>\<open>any\<close>; what the handler does with it depends on
  property reads and on truthiness, so the values that \<^verbatim>\<open>JSON.parse\<close> can produce are
  modelled, together with \<^verbatim>\<open>undefined\<close> (the result of reading a missing property).
  Of a number only being zero matters here.
\<close>

datatype jsval =
    JUndefined
  | JNull
  | JBool bool
  | JNum rat
  | JStr string
  | JArr "jsval list"
  | JObj "(string \<times> jsval) list"

text \<open>
  An exception object. What \<^verbatim>\<open>fetch\<close>, \<^verbatim>\<open>json()\<close> and a property read throw are
  \<^verbatim>\<open>Error\<close> objects, whose \<^verbatim>\<open>message\<close> is a string, and the handler reads nothing else
  of them.
\<close>

datatype js_error = JsError (message: string)

text \<open>JavaScript's truthiness, as \<^verbatim>\<open>||\<close> tests it.\<close>

fun truthy :: "jsval \<Rightarrow> bool" where
  "truthy JUndefined = False"
| "truthy JNull = False"
| "truthy (JBool b) = b"
| "truthy (JNum r) = (r \<noteq> 0)"
| "truthy (JStr s) = (s \<noteq> [])"
| "truthy (JArr xs) = True"
| "truthy (JObj kvs) = True"

definition js_or :: "jsval \<Rightarrow> jsval \<Rightarrow> jsval" where
  "js_or a b = (if truthy a then a else b)"

subsection \<open>The file state\<close>

datatype Category = Images | Pdf | Json | Txt

text \<open>The key as a string: what the template literal \<^verbatim>\<open>`${fileType}`\<close> evaluates to.\<close>

fun key_name :: "Category \<Rightarrow> string" where
  "key_name Images = ''images''"
| "key_name Pdf = ''pdf''"
| "key_name Json = ''json''"
| "key_name Txt = ''txt''"

text \<open>
  \<^verbatim>\<open>FileState\<close> objects are enumerated (\<^verbatim>\<open>Object.keys\<close>, \<^verbatim>\<open>Object.values\<close>) and accessed by
  computed keys, and JavaScript enumerates the string keys of an object in the order in
  which they were created. So the object is an association list in key order.
\<close>

type_synonym 'f FileState = "(Category \<times> 'f list) list"

definition Object_keys :: "'f FileState \<Rightarrow> Category list" where
  "Object_keys obj = map fst obj"

definition Object_values :: "'f FileState \<Rightarrow> 'f list list" where
  "Object_values obj = map snd obj"

text \<open>\<^verbatim>\<open>obj[k]\<close>; \<open>None\<close> is \<^verbatim>\<open>undefined\<close>.\<close>

definition get_prop :: "'f FileState \<Rightarrow> Category \<Rightarrow> 'f list option" where
  "get_prop obj k = map_of obj k"

text \<open>
  \<^verbatim>\<open>{...prev, [k]: v}\<close>: a copy of \<^verbatim>\<open>prev\<close> in which \<^verbatim>\<open>k\<close> holds \<^verbatim>\<open>v\<close>. A key that
  \<^verbatim>\<open>prev\<close> has keeps its place; a new key comes last.
\<close>

fun spread_set :: "'f FileState \<Rightarrow> Category \<Rightarrow> 'f list \<Rightarrow> 'f FileState" where
  "spread_set [] k v = [(k, v)]"
| "spread_set ((k', v') # rest) k v =
     (if k' = k then (k', v) # rest else (k', v') # spread_set rest k v)"

text \<open>The object literal \<^verbatim>\<open>{ images: [], pdf: [], json: [], txt: [] }\<close> (lines 21-26 and 73).\<close>

definition emptyFiles :: "'f FileState" where
  "emptyFiles = [(Images, []), (Pdf, []), (Json, []), (Txt, [])]"

record 'f state =
  files :: "'f FileState"
  error :: jsval

definition initialState :: "'f state" where
  "initialState = \<lparr>files = emptyFiles, error = JStr ''''\<rparr>"

subsection \<open>The host\<close>

text \<open>
  What the handlers call and the repository does not define: \<^verbatim>\<open>fetch\<close> with the server
  behind it, \<^verbatim>\<open>JSON.stringify\<close>, and the \<^verbatim>\<open>TypeError\<close> that the engine throws when a
  property of \<^verbatim>\<open>null\<close> or \<^verbatim>\<open>undefined\<close> is read. They are parameters of the model.
\<close>

text \<open>
  The two arguments of the call of \<^verbatim>\<open>fetch\<close> (lines 65-68): the address, and the options
  \<^verbatim>\<open>method\<close> (here \<open>http_method\<close>) and \<^verbatim>\<open>body\<close>, a \<^verbatim>\<open>FormData\<close>: its entries, each a
  field name and a file, in the order in which they were appended.
\<close>

record 'f request =
  url :: string
  http_method :: string
  body :: "(string \<times> 'f) list"

text \<open>
  Of a response the handler reads \<^verbatim>\<open>ok\<close> and calls \<^verbatim>\<open>json()\<close>, which either yields the
  parsed body or throws.
\<close>

record response =
  ok :: bool
  json :: "js_error + jsval"

record 'f host =
  fetch :: "'f request \<Rightarrow> js_error + response"
  JSON_stringify :: "jsval \<Rightarrow> string"
  TypeError :: "string \<Rightarrow> js_error"

text \<open>
  \<^verbatim>\<open>v.p\<close> for the two properties the handler reads, \<^verbatim>\<open>uploaded_files\<close> and \<^verbatim>\<open>error\<close>:
  reading from \<^verbatim>\<open>null\<close> or \<^verbatim>\<open>undefined\<close> throws, an object gives the property or
  \<^verbatim>\<open>undefined\<close>, and every other value gives \<^verbatim>\<open>undefined\<close>, since no prototype defines
  either name.
\<close>

fun js_get :: "'f host \<Rightarrow> jsval \<Rightarrow> string \<Rightarrow> js_error + jsval" where
  "js_get h JUndefined p = Inl (TypeError h p)"
| "js_get h JNull p = Inl (TypeError h p)"
| "js_get h (JObj kvs) p = (case map_of kvs p of None \<Rightarrow> Inr JUndefined | Some v \<Rightarrow> Inr v)"
| "js_get h v p = Inr JUndefined"

datatype 'f effect =
    Fetch "'f request"
  | Alert string
  | ConsoleError js_error

fun is_Fetch :: "'f effect \<Rightarrow> bool" where
  "is_Fetch (Fetch r) = True"
| "is_Fetch e = False"

fun is_Alert :: "'f effect \<Rightarrow> bool" where
  "is_Alert (Alert m) = True"
| "is_Alert e = False"

subsection \<open>\<^verbatim>\<open>handleFileChange\<close> (lines 29-37)\<close>

text \<open>
  \<^verbatim>\<open>selectedFiles\<close> is a \<^verbatim>\<open>FileList | null\<close>: \<open>None\<close> is \<^verbatim>\<open>null\<close>, \<open>Some fl\<close> a file
  list, which is an object and so truthy also when it has no element.
\<close>

definition handleFileChange :: "Category \<Rightarrow> 'f list option \<Rightarrow> 'f state \<Rightarrow> 'f state" where
  "handleFileChange fileType selectedFiles s =
     (case selectedFiles of
        None \<Rightarrow> s
      | Some fl \<Rightarrow> s\<lparr>files := spread_set (files s) fileType fl, error := JStr ''''\<rparr>)"

subsection \<open>\<^verbatim>\<open>removeFile\<close> (lines 39-44)\<close>

text \<open>\<^verbatim>\<open>arr.filter((_, i) => i !== index)\<close>.\<close>

definition filter_index :: "nat \<Rightarrow> 'a list \<Rightarrow> 'a list" where
  "filter_index index arr = map snd (filter (\<lambda>(i, _). i \<noteq> index) (enumerate 0 arr))"

text \<open>
  \<^verbatim>\<open>index\<close> is the array position that a chip's \<^verbatim>\<open>onDelete\<close> passes. Where
  \<^verbatim>\<open>prev[fileType]\<close> is \<^verbatim>\<open>undefined\<close>, calling \<^verbatim>\<open>filter\<close> on it throws.
\<close>

definition removeFile :: "'f host \<Rightarrow> Category \<Rightarrow> nat \<Rightarrow> 'f state \<Rightarrow> js_error + 'f state" where
  "removeFile h fileType index s =
     (case get_prop (files s) fileType of
        None \<Rightarrow> Inl (TypeError h ''filter'')
      | Some arr \<Rightarrow> Inr (s\<lparr>files := spread_set (files s) fileType (filter_index index arr)\<rparr>))"

subsection \<open>\<^verbatim>\<open>handleSubmit\<close> (lines 46-82)\<close>

type_synonym 'f FormData = "(string \<times> 'f) list"

text \<open>The inner loop (lines 58-61): one \<^verbatim>\<open>formData.append\<close> for each file.\<close>

fun append_files :: "string \<Rightarrow> 'f list \<Rightarrow> 'f FormData \<Rightarrow> 'f FormData" where
  "append_files name [] formData = formData"
| "append_files name (file # rest) formData = append_files name rest (formData @ [(name, file)])"

text \<open>The outer loop (lines 57-62), over the keys of \<^verbatim>\<open>files\<close>.\<close>

fun append_categories ::
  "'f host \<Rightarrow> 'f FileState \<Rightarrow> Category list \<Rightarrow> 'f FormData \<Rightarrow> js_error + 'f FormData" where
  "append_categories h obj [] formData = Inr formData"
| "append_categories h obj (fileType # rest) formData =
     (case get_prop obj fileType of
        None \<Rightarrow> Inl (TypeError h ''forEach'')
      | Some arr \<Rightarrow> append_categories h obj rest (append_files (key_name fileType) arr formData))"

text \<open>The \<^verbatim>\<open>catch\<close> block (lines 78-81), after the effects \<open>done\<close> that the \<^verbatim>\<open>try\<close> block had.\<close>

definition catch_block :: "'f state \<Rightarrow> 'f effect list \<Rightarrow> js_error \<Rightarrow> 'f state \<times> 'f effect list" where
  "catch_block s done err =
     (s\<lparr>error := js_or (JStr (message err)) (JStr ''Upload error occurred'')\<rparr>,
      done @ [ConsoleError err])"

text \<open>The \<^verbatim>\<open>try\<close> block (lines 65-77); \<open>Inl\<close> is the exception that leaves it.\<close>

definition try_block ::
  "'f host \<Rightarrow> 'f state \<Rightarrow> 'f request \<Rightarrow> js_error + 'f state \<times> 'f effect list" where
  "try_block h s req =
     (case fetch h req of
        Inl err \<Rightarrow> Inl err
      | Inr response \<Rightarrow>
          (case json response of
             Inl err \<Rightarrow> Inl err
           | Inr result \<Rightarrow>
               if ok response then
                 (case js_get h result ''uploaded_files'' of
                    Inl err \<Rightarrow> Inl err
                  | Inr uploaded \<Rightarrow>
                      Inr (s\<lparr>files := emptyFiles, error := JStr ''''\<rparr>,
                           [Fetch req,
                            Alert (''Files uploaded successfully: '' @ JSON_stringify h uploaded)]))
               else
                 (case js_get h result ''error'' of
                    Inl err \<Rightarrow> Inl err
                  | Inr e \<Rightarrow> Inr (s\<lparr>error := js_or e (JStr ''Upload failed'')\<rparr>, [Fetch req]))))"

text \<open>
  The handler. \<open>Inl\<close> is an exception that leaves the handler itself: only the loop that
  fills the form data, which runs before the \<^verbatim>\<open>try\<close>, can throw one. Every exception of
  the \<^verbatim>\<open>try\<close> block is thrown after \<^verbatim>\<open>fetch\<close> was called and before any other effect.
\<close>

definition handleSubmit :: "'f host \<Rightarrow> 'f state \<Rightarrow> js_error + 'f state \<times> 'f effect list" where
  "handleSubmit h s =
     (let hasFiles = list_ex (\<lambda>fileArray. length fileArray > 0) (Object_values (files s)) in
      if \<not> hasFiles then
        Inr (s\<lparr>error := JStr ''Please select at least one file before submitting.''\<rparr>, [])
      else
        (case append_categories h (files s) (Object_keys (files s)) [] of
           Inl err \<Rightarrow> Inl err
         | Inr formData \<Rightarrow>
             (let req = \<lparr>url = ''http://localhost:5000/upload'', http_method = ''POST'',
                         body = formData\<rparr> in
              case try_block h s req of
                Inl err \<Rightarrow> Inr (catch_block s [Fetch req] err)
              | Inr r \<Rightarrow> Inr r)))"

subsection \<open>The states the component can be in\<close>

text \<open>
  The component starts in \<open>initialState\<close> and its state changes only through the three
  handlers. A handler that throws leaves no next state.
\<close>

inductive reachable :: "'f host \<Rightarrow> 'f state \<Rightarrow> bool" for h :: "'f host" where
  mount: "reachable h initialState"
| select: "reachable h s \<Longrightarrow> reachable h (handleFileChange fileType selectedFiles s)"
| remove: "reachable h s \<Longrightarrow> removeFile h fileType index s = Inr s' \<Longrightarrow> reachable h s'"
| submit: "reachable h s \<Longrightarrow> handleSubmit h s = Inr (s', effects) \<Longrightarrow> reachable h s'"

text \<open>The keys of \<^verbatim>\<open>files\<close> are the four categories, in the order of the object literal.\<close>

definition key_order_inv :: "'f FileState \<Rightarrow> bool" where
  "key_order_inv obj = (Object_keys obj = [Images, Pdf, Json, Txt])"

subsection \<open>Sample hosts and states\<close>

text \<open>
  Concrete inputs on which the theorems below are evaluated. Files are named by strings.
  The sample host answers every request with \<open>answer\<close>.
\<close>

definition sample_stringify :: "jsval \<Rightarrow> string" where
  "sample_stringify v = (if v = JArr [JStr ''f1''] then ''[ f1 ]'' else ''undefined'')"

definition sample_host :: "js_error + response \<Rightarrow> string host" where
  "sample_host answer =
     \<lparr>fetch = (\<lambda>req. answer),
      JSON_stringify = sample_stringify,
      TypeError = (\<lambda>p. JsError (''Cannot read properties of null (reading '' @ p @ '')''))\<rparr>"

definition staged :: "string list \<Rightarrow> jsval \<Rightarrow> string state" where
  "staged imgs e = \<lparr>files = [(Images, imgs), (Pdf, []), (Json, []), (Txt, [])], error = e\<rparr>"

definition answer_200_uploaded :: "js_error + response" where
  "answer_200_uploaded =
     Inr \<lparr>ok = True, json = Inr (JObj [(''uploaded_files'', JArr [JStr ''f1''])])\<rparr>"

definition answer_400_bad_file :: "js_error + response" where
  "answer_400_bad_file = Inr \<lparr>ok = False, json = Inr (JObj [(''error'', JStr ''bad file'')])\<rparr>"

definition answer_200_not_json :: "js_error + response" where
  "answer_200_not_json = Inr \<lparr>ok = True, json = Inl (JsError ''Unexpected token < in JSON'')\<rparr>"

definition answer_502_not_json :: "js_error + response" where
  "answer_502_not_json = Inr \<lparr>ok = False, json = Inl (JsError ''Unexpected token < in JSON'')\<rparr>"

definition answer_unreachable :: "js_error + response" where
  "answer_unreachable = Inl (JsError ''Failed to fetch'')"

section \<open>Properties\<close>

subsection \<open>Objects\<close>

lemma get_prop_spread_set_same: "get_prop (spread_set obj k v) k = Some v"
  by (induction obj) (auto simp: get_prop_def)

lemma get_prop_spread_set_other: "k' \<noteq> k \<Longrightarrow> get_prop (spread_set obj k v) k' = get_prop obj k'"
  by (induction obj) (auto simp: get_prop_def)

lemma spread_set_same_value: "get_prop obj k = Some v \<Longrightarrow> spread_set obj k v = obj"
  by (induction obj) (auto simp: get_prop_def split: if_splits)

lemma keys_spread_set:
  "k \<in> set (Object_keys obj) \<Longrightarrow> Object_keys (spread_set obj k v) = Object_keys obj"
  by (induction obj) (force simp: Object_keys_def)+

lemma key_order_inv_shape:
  "key_order_inv obj \<longleftrightarrow> (\<exists>a b c d. obj = [(Images, a), (Pdf, b), (Json, c), (Txt, d)])"
  by (auto simp: key_order_inv_def Object_keys_def map_eq_Cons_conv)

lemma key_order_inv_emptyFiles: "key_order_inv emptyFiles"
  by (simp add: key_order_inv_def Object_keys_def emptyFiles_def)

lemma key_order_inv_spread_set: "key_order_inv obj \<Longrightarrow> key_order_inv (spread_set obj k v)"
proof -
  assume inv: "key_order_inv obj"
  then have "k \<in> set (Object_keys obj)"
    by (cases k) (simp_all add: key_order_inv_def)
  then have "Object_keys (spread_set obj k v) = Object_keys obj"
    by (rule keys_spread_set)
  with inv show ?thesis
    by (simp add: key_order_inv_def)
qed

lemma key_order_inv_get_prop: "key_order_inv obj \<Longrightarrow> \<exists>arr. get_prop obj k = Some arr"
  by (cases k) (auto simp: key_order_inv_shape get_prop_def)

subsection \<open>The filter of \<^verbatim>\<open>removeFile\<close>\<close>

lemma filter_enumerate_below:
  "m < n \<Longrightarrow> map snd (filter (\<lambda>(i, _). i \<noteq> m) (enumerate n xs)) = xs"
  by (induction xs arbitrary: n) auto

lemma filter_enumerate_from:
  "map snd (filter (\<lambda>(i, _). i \<noteq> n + k) (enumerate n xs)) = take k xs @ drop (Suc k) xs"
proof (induction xs arbitrary: n k)
  case Nil
  show ?case by simp
next
  case (Cons x xs)
  show ?case
  proof (cases k)
    case 0
    then show ?thesis by (simp add: filter_enumerate_below)
  next
    case (Suc j)
    have "map snd (filter (\<lambda>(i, _). i \<noteq> Suc n + j) (enumerate (Suc n) xs))
            = take j xs @ drop (Suc j) xs"
      by (rule Cons.IH)
    with Suc show ?thesis by simp
  qed
qed

lemma filter_index_eq: "filter_index i xs = take i xs @ drop (Suc i) xs"
  using filter_enumerate_from [of 0 i xs] by (simp add: filter_index_def)

lemma removeFile_found:
  "get_prop (files s) c = Some xs \<Longrightarrow>
   removeFile h c i s = Inr (s\<lparr>files := spread_set (files s) c (take i xs @ drop (Suc i) xs)\<rparr>)"
  by (simp add: removeFile_def filter_index_eq)

subsection \<open>The form data\<close>

lemma append_files_eq: "append_files name arr formData = formData @ map (Pair name) arr"
  by (induction arr arbitrary: formData) simp_all

lemma append_categories_own_keys:
  "set ks \<subseteq> set (Object_keys obj) \<Longrightarrow> \<exists>formData'. append_categories h obj ks formData = Inr formData'"
proof (induction ks arbitrary: formData)
  case Nil
  show ?case by simp
next
  case (Cons k ks)
  from Cons.prems have "k \<in> fst ` set obj"
    by (simp add: Object_keys_def)
  then obtain arr where "get_prop obj k = Some arr"
    by (cases "map_of obj k") (auto simp: get_prop_def map_of_eq_None_iff)
  moreover from Cons.prems have "set ks \<subseteq> set (Object_keys obj)"
    by simp
  ultimately show ?case
    using Cons.IH by simp
qed

lemma append_categories_in_order:
  "append_categories h [(Images, imgs), (Pdf, pdfs), (Json, jsons), (Txt, txts)]
     [Images, Pdf, Json, Txt] [] =
   Inr (map (Pair ''images'') imgs @ map (Pair ''pdf'') pdfs @ map (Pair ''json'') jsons
        @ map (Pair ''txt'') txts)"
  by (simp add: get_prop_def append_files_eq)

subsection \<open>\<^verbatim>\<open>handleSubmit\<close> once files are staged\<close>

lemma handleSubmit_staged:
  assumes "files s = [(Images, imgs), (Pdf, pdfs), (Json, jsons), (Txt, txts)]"
    and "imgs \<noteq> [] \<or> pdfs \<noteq> [] \<or> jsons \<noteq> [] \<or> txts \<noteq> []"
    and "req = \<lparr>url = ''http://localhost:5000/upload'', http_method = ''POST'',
                body = map (Pair ''images'') imgs @ map (Pair ''pdf'') pdfs
                       @ map (Pair ''json'') jsons @ map (Pair ''txt'') txts\<rparr>"
  shows "handleSubmit h s =
           (case try_block h s req of
              Inl err \<Rightarrow> Inr (catch_block s [Fetch req] err)
            | Inr r \<Rightarrow> Inr r)"
proof -
  have "list_ex (\<lambda>fileArray. length fileArray > 0) (Object_values (files s))"
    using assms(1,2) by (auto simp: Object_values_def)
  moreover have "append_categories h (files s) (Object_keys (files s)) [] =
      Inr (map (Pair ''images'') imgs @ map (Pair ''pdf'') pdfs @ map (Pair ''json'') jsons
           @ map (Pair ''txt'') txts)"
    using assms(1)
    by (simp del: append_categories.simps add: Object_keys_def append_categories_in_order)
  ultimately show ?thesis
    unfolding assms(3) by (simp add: handleSubmit_def Let_def)
qed

lemma try_block_effects:
  "try_block h s req = Inr (s', effects) \<Longrightarrow> \<exists>rest. effects = Fetch req # rest \<and> \<not> list_ex is_Fetch rest"
  by (auto simp: try_block_def split: sum.splits if_splits)

lemma try_block_files:
  "try_block h s req = Inr (s', effects) \<Longrightarrow> files s' = files s \<or> files s' = emptyFiles"
  by (auto simp: try_block_def split: sum.splits if_splits)

lemma handleSubmit_never_throws: "\<exists>r. handleSubmit h s = Inr r"
proof -
  obtain formData where "append_categories h (files s) (Object_keys (files s)) [] = Inr formData"
    using append_categories_own_keys [of "Object_keys (files s)" "files s" h "[]"] by auto
  then show ?thesis
    by (simp add: handleSubmit_def Let_def split: sum.splits)
qed

subsection \<open>The key order is invariant\<close>

lemma handleFileChange_inv:
  "key_order_inv (files s) \<Longrightarrow> key_order_inv (files (handleFileChange c sel s))"
  by (cases sel) (simp_all add: handleFileChange_def key_order_inv_spread_set)

lemma removeFile_inv:
  "key_order_inv (files s) \<Longrightarrow> removeFile h c i s = Inr s' \<Longrightarrow> key_order_inv (files s')"
  by (auto simp: removeFile_def key_order_inv_spread_set split: option.splits)

lemma handleSubmit_inv:
  assumes "key_order_inv (files s)" and "handleSubmit h s = Inr (s', effects)"
  shows "key_order_inv (files s')"
proof -
  have "files s' = files s \<or> files s' = emptyFiles"
    using assms(2)
    by (auto simp: handleSubmit_def Let_def catch_block_def
        split: if_splits sum.splits dest: try_block_files)
  with assms(1) show ?thesis
    by (auto simp: key_order_inv_emptyFiles)
qed

lemma reachable_key_order: "reachable h s \<Longrightarrow> key_order_inv (files s)"
proof (induction rule: reachable.induct)
  case mount
  show ?case by (simp add: initialState_def key_order_inv_emptyFiles)
next
  case (select s fileType selectedFiles)
  then show ?case by (simp add: handleFileChange_inv)
next
  case (remove s fileType index s')
  then show ?case by (blast intro: removeFile_inv)
next
  case (submit s s' effects)
  then show ?case by (blast intro: handleSubmit_inv)
qed

lemma reachable_removeFile_never_throws: "reachable h s \<Longrightarrow> \<exists>s'. removeFile h c i s = Inr s'"
  using key_order_inv_get_prop [OF reachable_key_order, of h s c]
  by (auto simp: removeFile_def)

lemma reachable_shape:
  "reachable h s \<Longrightarrow>
   \<exists>imgs pdfs jsons txts. files s = [(Images, imgs), (Pdf, pdfs), (Json, jsons), (Txt, txts)]"
  using reachable_key_order [of h s] by (simp add: key_order_inv_shape)

lemma js_get_defined: "v \<noteq> JNull \<Longrightarrow> v \<noteq> JUndefined \<Longrightarrow> \<exists>u. js_get h v p = Inr u"
  by (cases v) (auto split: option.splits)

section \<open>The claims\<close>

text \<open>
  In what follows a state whose \<^verbatim>\<open>files\<close> object is
  \<open>[(Images, imgs), (Pdf, pdfs), (Json, jsons), (Txt, txts)]\<close> is a state in which the four
  categories hold the sequences \<open>imgs\<close>, \<open>pdfs\<close>, \<open>jsons\<close> and \<open>txts\<close>; by \<open>reachable_shape\<close>
  every state of the component is of this form.
\<close>

subsection \<open>Submitting\<close>

text \<open>
  Claim C1. Whenever at least one category holds a file, \<^verbatim>\<open>handleSubmit\<close> sends one
  request: a POST to \<^verbatim>\<open>http://localhost:5000/upload\<close> whose body holds the files of
  \<^verbatim>\<open>images\<close>, then those of \<^verbatim>\<open>pdf\<close>, \<^verbatim>\<open>json\<close> and \<^verbatim>\<open>txt\<close>, each under the name of its
  category. It is the first effect of the handler, and no other effect is a request.
\<close>

theorem handleSubmit_posts_one_payload:
  assumes "files s = [(Images, imgs), (Pdf, pdfs), (Json, jsons), (Txt, txts)]"
    and "imgs \<noteq> [] \<or> pdfs \<noteq> [] \<or> jsons \<noteq> [] \<or> txts \<noteq> []"
  shows "\<exists>s' rest.
           handleSubmit h s =
             Inr (s', Fetch \<lparr>url = ''http://localhost:5000/upload'', http_method = ''POST'',
                              body = map (Pair ''images'') imgs @ map (Pair ''pdf'') pdfs
                                     @ map (Pair ''json'') jsons @ map (Pair ''txt'') txts\<rparr> # rest)
           \<and> \<not> list_ex is_Fetch rest"
proof -
  define req where "req = \<lparr>url = ''http://localhost:5000/upload'', http_method = ''POST'',
      body = map (Pair ''images'') imgs @ map (Pair ''pdf'') pdfs
             @ map (Pair ''json'') jsons @ map (Pair ''txt'') txts\<rparr>"
  have submit: "handleSubmit h s =
      (case try_block h s req of
         Inl err \<Rightarrow> Inr (catch_block s [Fetch req] err)
       | Inr r \<Rightarrow> Inr r)"
    using assms req_def by (rule handleSubmit_staged)
  show ?thesis
  proof (cases "try_block h s req")
    case (Inl err)
    with submit have "handleSubmit h s =
        Inr (s\<lparr>error := js_or (JStr (message err)) (JStr ''Upload error occurred'')\<rparr>,
             Fetch req # [ConsoleError err])"
      by (simp add: catch_block_def)
    then show ?thesis
      unfolding req_def by (intro exI conjI) (assumption, simp)
  next
    case (Inr r)
    obtain s' effects where r: "r = (s', effects)"
      by (cases r)
    with Inr obtain rest where "effects = Fetch req # rest" and "\<not> list_ex is_Fetch rest"
      using try_block_effects by blast
    with submit Inr r show ?thesis
      unfolding req_def by simp
  qed
qed

text \<open>Two images and a text file, sent to a server that accepts them.\<close>

theorem handleSubmit_posts_one_payload_witness:
  "handleSubmit (sample_host answer_200_uploaded)
     \<lparr>files = [(Images, [''a.png'', ''b.png'']), (Pdf, []), (Json, []), (Txt, [''c.txt''])],
       error = JStr ''''\<rparr> =
   Inr (\<lparr>files = [(Images, []), (Pdf, []), (Json, []), (Txt, [])], error = JStr ''''\<rparr>,
        [Fetch \<lparr>url = ''http://localhost:5000/upload'', http_method = ''POST'',
                body = [(''images'', ''a.png''), (''images'', ''b.png''), (''txt'', ''c.txt'')]\<rparr>,
         Alert ''Files uploaded successfully: [ f1 ]''])"
  using handleSubmit_posts_one_payload [of
      "\<lparr>files = [(Images, [''a.png'', ''b.png'']), (Pdf, []), (Json, []), (Txt, [''c.txt''])],
        error = JStr ''''\<rparr>"
      "[''a.png'', ''b.png'']" "[]" "[]" "[''c.txt'']" "sample_host answer_200_uploaded"]
  by (simp add: handleSubmit_def try_block_def sample_host_def answer_200_uploaded_def
      sample_stringify_def Object_values_def Object_keys_def get_prop_def emptyFiles_def)

text \<open>
  Claim C2. When all four categories are empty, \<^verbatim>\<open>handleSubmit\<close> sets the error to the
  fixed message and does nothing else: no effect on the host (so no request), and the
  files are as before.
\<close>

theorem handleSubmit_no_files:
  assumes "files s = [(Images, []), (Pdf, []), (Json, []), (Txt, [])]"
  shows "handleSubmit h s =
           Inr (s\<lparr>error := JStr ''Please select at least one file before submitting.''\<rparr>, [])
         \<and> files (s\<lparr>error := JStr ''Please select at least one file before submitting.''\<rparr>)
             = files s"
  using assms by (simp add: handleSubmit_def Object_values_def)

text \<open>The state right after mount, with any server.\<close>

theorem handleSubmit_no_files_witness:
  "handleSubmit (sample_host answer_200_uploaded) (staged [] (JStr '''')) =
     Inr (\<lparr>files = [(Images, []), (Pdf, []), (Json, []), (Txt, [])],
           error = JStr ''Please select at least one file before submitting.''\<rparr>, [])"
  using handleSubmit_no_files [of "staged [] (JStr '''')" "sample_host answer_200_uploaded"]
  by (simp add: staged_def)

text \<open>
  Claim C3, amended. When the response has a success status and its body parses to a
  value of which \<^verbatim>\<open>uploaded_files\<close> can be read (by \<open>js_get_defined\<close>: any value but
  \<^verbatim>\<open>null\<close>), \<^verbatim>\<open>handleSubmit\<close> shows an alert with the server's \<^verbatim>\<open>uploaded_files\<close>, empties
  all four categories and clears the error.
\<close>

theorem handleSubmit_success:
  assumes "files s = [(Images, imgs), (Pdf, pdfs), (Json, jsons), (Txt, txts)]"
    and "imgs \<noteq> [] \<or> pdfs \<noteq> [] \<or> jsons \<noteq> [] \<or> txts \<noteq> []"
    and "req = \<lparr>url = ''http://localhost:5000/upload'', http_method = ''POST'',
                body = map (Pair ''images'') imgs @ map (Pair ''pdf'') pdfs
                       @ map (Pair ''json'') jsons @ map (Pair ''txt'') txts\<rparr>"
    and "fetch h req = Inr response"
    and "ok response"
    and "json response = Inr result"
    and "js_get h result ''uploaded_files'' = Inr uploaded"
  shows "handleSubmit h s =
           Inr (s\<lparr>files := [(Images, []), (Pdf, []), (Json, []), (Txt, [])], error := JStr ''''\<rparr>,
                [Fetch req, Alert (''Files uploaded successfully: '' @ JSON_stringify h uploaded)])"
proof -
  have "try_block h s req =
      Inr (s\<lparr>files := emptyFiles, error := JStr ''''\<rparr>,
           [Fetch req, Alert (''Files uploaded successfully: '' @ JSON_stringify h uploaded)])"
    using assms(4-7) by (simp add: try_block_def)
  then show ?thesis
    using handleSubmit_staged [OF assms(1-3), of h] by (simp add: emptyFiles_def)
qed

text \<open>The server answers 200 and reports the uploaded file \<^verbatim>\<open>f1\<close>.\<close>

theorem handleSubmit_success_witness:
  "handleSubmit (sample_host answer_200_uploaded) (staged [''f1''] (JStr ''bad file'')) =
     Inr (\<lparr>files = [(Images, []), (Pdf, []), (Json, []), (Txt, [])], error = JStr ''''\<rparr>,
          [Fetch \<lparr>url = ''http://localhost:5000/upload'', http_method = ''POST'',
                  body = [(''images'', ''f1'')]\<rparr>,
           Alert ''Files uploaded successfully: [ f1 ]''])"
  using handleSubmit_success [of "staged [''f1''] (JStr ''bad file'')" "[''f1'']" "[]" "[]" "[]"
      "\<lparr>url = ''http://localhost:5000/upload'', http_method = ''POST'',
        body = [(''images'', ''f1'')]\<rparr>"
      "sample_host answer_200_uploaded"
      "\<lparr>ok = True, json = Inr (JObj [(''uploaded_files'', JArr [JStr ''f1''])])\<rparr>"
      "JObj [(''uploaded_files'', JArr [JStr ''f1''])]" "JArr [JStr ''f1'']"]
  by (simp add: staged_def sample_host_def answer_200_uploaded_def sample_stringify_def)

text \<open>
  As stated, C3 speaks of every response with a success status. A response with status
  200 whose body is not JSON gets no alert, and the staged file stays.
\<close>

theorem handleSubmit_success_status_counterexample:
  "answer_200_not_json = Inr \<lparr>ok = True, json = Inl (JsError ''Unexpected token < in JSON'')\<rparr>
   \<and> handleSubmit (sample_host answer_200_not_json) (staged [''f1''] (JStr '''')) =
     Inr (\<lparr>files = [(Images, [''f1'']), (Pdf, []), (Json, []), (Txt, [])],
           error = JStr ''Unexpected token < in JSON''\<rparr>,
          [Fetch \<lparr>url = ''http://localhost:5000/upload'', http_method = ''POST'',
                  body = [(''images'', ''f1'')]\<rparr>,
           ConsoleError (JsError ''Unexpected token < in JSON'')])"
  by (simp add: handleSubmit_def try_block_def catch_block_def js_or_def staged_def sample_host_def
      answer_200_not_json_def Object_values_def Object_keys_def get_prop_def)

text \<open>
  Claim C4, amended. When the response has a failure status and its body parses to a
  value of which \<^verbatim>\<open>error\<close> can be read (any value but \<^verbatim>\<open>null\<close>), the error becomes that
  \<^verbatim>\<open>error\<close> field if it is truthy (for a string: not empty) and \<^verbatim>\<open>Upload failed\<close>
  otherwise, also when the field is absent (\<open>e = JUndefined\<close>). The files are as before.
\<close>

theorem handleSubmit_rejected:
  assumes "files s = [(Images, imgs), (Pdf, pdfs), (Json, jsons), (Txt, txts)]"
    and "imgs \<noteq> [] \<or> pdfs \<noteq> [] \<or> jsons \<noteq> [] \<or> txts \<noteq> []"
    and "req = \<lparr>url = ''http://localhost:5000/upload'', http_method = ''POST'',
                body = map (Pair ''images'') imgs @ map (Pair ''pdf'') pdfs
                       @ map (Pair ''json'') jsons @ map (Pair ''txt'') txts\<rparr>"
    and "fetch h req = Inr response"
    and "\<not> ok response"
    and "json response = Inr result"
    and "js_get h result ''error'' = Inr e"
  shows "handleSubmit h s =
           Inr (s\<lparr>error := (if truthy e then e else JStr ''Upload failed'')\<rparr>, [Fetch req])
         \<and> files (s\<lparr>error := (if truthy e then e else JStr ''Upload failed'')\<rparr>) = files s"
proof -
  have "try_block h s req = Inr (s\<lparr>error := js_or e (JStr ''Upload failed'')\<rparr>, [Fetch req])"
    using assms(4-7) by (simp add: try_block_def)
  then show ?thesis
    using handleSubmit_staged [OF assms(1-3), of h] by (simp add: js_or_def)
qed

text \<open>The server answers 400 with the error \<^verbatim>\<open>bad file\<close>.\<close>

theorem handleSubmit_rejected_witness:
  "handleSubmit (sample_host answer_400_bad_file) (staged [''f1''] (JStr '''')) =
     Inr (\<lparr>files = [(Images, [''f1'']), (Pdf, []), (Json, []), (Txt, [])],
           error = JStr ''bad file''\<rparr>,
          [Fetch \<lparr>url = ''http://localhost:5000/upload'', http_method = ''POST'',
                  body = [(''images'', ''f1'')]\<rparr>])"
  using handleSubmit_rejected [of "staged [''f1''] (JStr '''')" "[''f1'']" "[]" "[]" "[]"
      "\<lparr>url = ''http://localhost:5000/upload'', http_method = ''POST'',
        body = [(''images'', ''f1'')]\<rparr>"
      "sample_host answer_400_bad_file"
      "\<lparr>ok = False, json = Inr (JObj [(''error'', JStr ''bad file'')])\<rparr>"
      "JObj [(''error'', JStr ''bad file'')]" "JStr ''bad file''"]
  by (simp add: staged_def sample_host_def answer_400_bad_file_def)

text \<open>
  As stated, C4 speaks of every response with a failure status. A response with status
  502 whose body is not JSON sets the error to the message of the parse failure, which is
  neither an \<^verbatim>\<open>error\<close> field of the body nor the fallback \<^verbatim>\<open>Upload failed\<close>.
\<close>

theorem handleSubmit_failure_status_counterexample:
  "handleSubmit (sample_host answer_502_not_json) (staged [''f1''] (JStr '''')) =
     Inr (\<lparr>files = [(Images, [''f1'']), (Pdf, []), (Json, []), (Txt, [])],
           error = JStr ''Unexpected token < in JSON''\<rparr>,
          [Fetch \<lparr>url = ''http://localhost:5000/upload'', http_method = ''POST'',
                  body = [(''images'', ''f1'')]\<rparr>,
           ConsoleError (JsError ''Unexpected token < in JSON'')])
   \<and> answer_502_not_json = Inr \<lparr>ok = False, json = Inl (JsError ''Unexpected token < in JSON'')\<rparr>
   \<and> JStr ''Unexpected token < in JSON'' \<noteq> JStr ''Upload failed''"
  by (simp add: handleSubmit_def try_block_def catch_block_def js_or_def staged_def sample_host_def
      answer_502_not_json_def Object_values_def Object_keys_def get_prop_def)

text \<open>
  Claim C5. When \<^verbatim>\<open>fetch\<close> fails, so that there is no response, the error becomes the
  message of the failure, or \<^verbatim>\<open>Upload error occurred\<close> when that message is empty, and the
  files are as before.
\<close>

theorem handleSubmit_transport_failure:
  assumes "files s = [(Images, imgs), (Pdf, pdfs), (Json, jsons), (Txt, txts)]"
    and "imgs \<noteq> [] \<or> pdfs \<noteq> [] \<or> jsons \<noteq> [] \<or> txts \<noteq> []"
    and "req = \<lparr>url = ''http://localhost:5000/upload'', http_method = ''POST'',
                body = map (Pair ''images'') imgs @ map (Pair ''pdf'') pdfs
                       @ map (Pair ''json'') jsons @ map (Pair ''txt'') txts\<rparr>"
    and "fetch h req = Inl err"
  shows "handleSubmit h s =
           Inr (s\<lparr>error := JStr (if message err = [] then ''Upload error occurred''
                                   else message err)\<rparr>,
                [Fetch req, ConsoleError err])
         \<and> files (s\<lparr>error := JStr (if message err = [] then ''Upload error occurred''
                                      else message err)\<rparr>) = files s"
proof -
  have "try_block h s req = Inl err"
    using assms(4) by (simp add: try_block_def)
  then show ?thesis
    using handleSubmit_staged [OF assms(1-3), of h] by (simp add: catch_block_def js_or_def)
qed

text \<open>The server cannot be reached.\<close>

theorem handleSubmit_transport_failure_witness:
  "handleSubmit (sample_host answer_unreachable) (staged [''f1''] (JStr '''')) =
     Inr (\<lparr>files = [(Images, [''f1'']), (Pdf, []), (Json, []), (Txt, [])],
           error = JStr ''Failed to fetch''\<rparr>,
          [Fetch \<lparr>url = ''http://localhost:5000/upload'', http_method = ''POST'',
                  body = [(''images'', ''f1'')]\<rparr>,
           ConsoleError (JsError ''Failed to fetch'')])"
  using handleSubmit_transport_failure [of "staged [''f1''] (JStr '''')" "[''f1'']" "[]" "[]" "[]"
      "\<lparr>url = ''http://localhost:5000/upload'', http_method = ''POST'',
        body = [(''images'', ''f1'')]\<rparr>"
      "sample_host answer_unreachable" "JsError ''Failed to fetch''"]
  by (simp add: staged_def sample_host_def answer_unreachable_def)

text \<open>
  Claim C10. When the body of the response does not parse, the outcome is that of a failed
  \<^verbatim>\<open>fetch\<close>, whatever the status: the error becomes the message of the parse failure (or
  the fallback \<^verbatim>\<open>Upload error occurred\<close>), no alert is shown and the files are as before.
\<close>

theorem handleSubmit_unparsable_body:
  assumes "files s = [(Images, imgs), (Pdf, pdfs), (Json, jsons), (Txt, txts)]"
    and "imgs \<noteq> [] \<or> pdfs \<noteq> [] \<or> jsons \<noteq> [] \<or> txts \<noteq> []"
    and "req = \<lparr>url = ''http://localhost:5000/upload'', http_method = ''POST'',
                body = map (Pair ''images'') imgs @ map (Pair ''pdf'') pdfs
                       @ map (Pair ''json'') jsons @ map (Pair ''txt'') txts\<rparr>"
    and "fetch h req = Inr response"
    and "json response = Inl err"
  shows "handleSubmit h s =
           Inr (s\<lparr>error := JStr (if message err = [] then ''Upload error occurred''
                                   else message err)\<rparr>,
                [Fetch req, ConsoleError err])
         \<and> files (s\<lparr>error := JStr (if message err = [] then ''Upload error occurred''
                                      else message err)\<rparr>) = files s
         \<and> \<not> list_ex is_Alert [Fetch req, ConsoleError err]"
proof -
  have "try_block h s req = Inl err"
    using assms(4,5) by (simp add: try_block_def)
  then show ?thesis
    using handleSubmit_staged [OF assms(1-3), of h] by (simp add: catch_block_def js_or_def)
qed

text \<open>A response with status 200 whose body is not JSON.\<close>

theorem handleSubmit_unparsable_body_witness:
  "handleSubmit (sample_host answer_200_not_json) (staged [''f1'', ''f2''] (JStr '''')) =
     Inr (\<lparr>files = [(Images, [''f1'', ''f2'']), (Pdf, []), (Json, []), (Txt, [])],
           error = JStr ''Unexpected token < in JSON''\<rparr>,
          [Fetch \<lparr>url = ''http://localhost:5000/upload'', http_method = ''POST'',
                  body = [(''images'', ''f1''), (''images'', ''f2'')]\<rparr>,
           ConsoleError (JsError ''Unexpected token < in JSON'')])"
  using handleSubmit_unparsable_body [of "staged [''f1'', ''f2''] (JStr '''')" "[''f1'', ''f2'']"
      "[]" "[]" "[]"
      "\<lparr>url = ''http://localhost:5000/upload'', http_method = ''POST'',
        body = [(''images'', ''f1''), (''images'', ''f2'')]\<rparr>"
      "sample_host answer_200_not_json"
      "\<lparr>ok = True, json = Inl (JsError ''Unexpected token < in JSON'')\<rparr>"
      "JsError ''Unexpected token < in JSON''"]
  by (simp add: staged_def sample_host_def answer_200_not_json_def)

subsection \<open>Selecting\<close>

text \<open>
  Claim C6. Selecting a batch that is not empty for a category makes the batch that
  category's sequence, whatever the sequence was before, and clears the error; selecting
  \<open>[f1, f2]\<close> and then \<open>[f3]\<close> leaves \<open>[f3]\<close>.
\<close>

theorem handleFileChange_replaces:
  assumes "batch \<noteq> []"
  shows "get_prop (files (handleFileChange c (Some batch) s)) c = Some batch
         \<and> error (handleFileChange c (Some batch) s) = JStr ''''
         \<and> get_prop (files (handleFileChange c (Some [f3])
                               (handleFileChange c (Some [f1, f2]) s))) c = Some [f3]"
  by (simp add: handleFileChange_def get_prop_spread_set_same)

text \<open>A new image replaces the old one and the error of a failed upload goes.\<close>

theorem handleFileChange_replaces_witness:
  "[''new.png''] \<noteq> []
   \<and> get_prop (files (handleFileChange Images (Some [''new.png''])
                        (staged [''old.png''] (JStr ''Upload failed'')))) Images = Some [''new.png'']
   \<and> error (handleFileChange Images (Some [''new.png''])
              (staged [''old.png''] (JStr ''Upload failed''))) = JStr ''''"
  using handleFileChange_replaces [of "[''new.png'']" Images "staged [''old.png''] (JStr ''Upload failed'')"]
  by simp

text \<open>
  Claim C7, amended. A selection that is absent (\<^verbatim>\<open>null\<close>) changes nothing. A selection
  that is an empty file list is a selection like any other: the category's sequence
  becomes empty and the error is cleared.
\<close>

theorem handleFileChange_absent_selection:
  "handleFileChange c None s = s
   \<and> get_prop (files (handleFileChange c (Some []) s)) c = Some []
   \<and> error (handleFileChange c (Some []) s) = JStr ''''"
  by (simp add: handleFileChange_def get_prop_spread_set_same)

text \<open>
  As stated, C7 takes the empty selection for a no-op too. Here it discards the staged
  image and the error message.
\<close>

theorem handleFileChange_empty_selection_counterexample:
  "get_prop (files (staged [''f1''] (JStr ''Upload failed''))) Images = Some [''f1'']
   \<and> get_prop (files (handleFileChange Images (Some []) (staged [''f1''] (JStr ''Upload failed''))))
        Images = Some []
   \<and> error (handleFileChange Images (Some []) (staged [''f1''] (JStr ''Upload failed''))) = JStr ''''
   \<and> handleFileChange Images (Some []) (staged [''f1''] (JStr ''Upload failed''))
       \<noteq> staged [''f1''] (JStr ''Upload failed'')"
  by (simp add: handleFileChange_def staged_def get_prop_def)

subsection \<open>Removing\<close>

text \<open>
  Claim C8. Let \<open>xs\<close> be the sequence of category \<open>c\<close>. With \<open>i < length xs\<close>,
  \<^verbatim>\<open>removeFile\<close> does not throw and leaves \<open>xs\<close> without its element at position \<open>i\<close>: the
  elements before it followed by the elements after it, one element fewer. With
  \<open>length xs \<le> i\<close> it does not throw and the state is as before.
\<close>

theorem removeFile_at_index:
  assumes "get_prop (files s) c = Some xs"
  shows "(i < length xs \<longrightarrow>
            (\<exists>s'. removeFile h c i s = Inr s'
                \<and> get_prop (files s') c = Some (take i xs @ drop (Suc i) xs)
                \<and> length (take i xs @ drop (Suc i) xs) = length xs - 1))
         \<and> (length xs \<le> i \<longrightarrow> removeFile h c i s = Inr s)"
proof (intro conjI impI)
  assume "i < length xs"
  then have "length (take i xs @ drop (Suc i) xs) = length xs - 1"
    by simp
  then show "\<exists>s'. removeFile h c i s = Inr s'
      \<and> get_prop (files s') c = Some (take i xs @ drop (Suc i) xs)
      \<and> length (take i xs @ drop (Suc i) xs) = length xs - 1"
    using removeFile_found [OF assms, of h i] by (simp add: get_prop_spread_set_same)
next
  assume "length xs \<le> i"
  then have "take i xs @ drop (Suc i) xs = xs"
    by simp
  then show "removeFile h c i s = Inr s"
    using removeFile_found [OF assms, of h i] by (simp add: spread_set_same_value [OF assms])
qed

text \<open>Removing at position 1 of three files, and at position 3, which is out of range.\<close>

theorem removeFile_at_index_witness:
  "removeFile (sample_host answer_unreachable) Images 1 (staged [''a'', ''b'', ''c''] (JStr ''''))
     = Inr (staged [''a'', ''c''] (JStr ''''))
   \<and> removeFile (sample_host answer_unreachable) Images 3 (staged [''a'', ''b'', ''c''] (JStr ''''))
     = Inr (staged [''a'', ''b'', ''c''] (JStr ''''))"
  using removeFile_at_index [of "staged [''a'', ''b'', ''c''] (JStr '''')" Images "[''a'', ''b'', ''c'']"
      1 "sample_host answer_unreachable"]
    removeFile_at_index [of "staged [''a'', ''b'', ''c''] (JStr '''')" Images "[''a'', ''b'', ''c'']"
      3 "sample_host answer_unreachable"]
  by (simp add: staged_def get_prop_def removeFile_def filter_index_def)

text \<open>
  Claim C9, amended. Positions are read at the time of each call: the second of two calls
  with the same index \<open>i\<close> removes the element that stands at position \<open>i\<close> after the first
  call, which is the one that stood at position \<open>i + 1\<close> before it. Together the two calls
  leave the elements before position \<open>i\<close> followed by those from position \<open>i + 2\<close> on; the
  second call removes nothing only when no element stood at position \<open>i + 1\<close>.
\<close>

theorem removeFile_twice:
  assumes "get_prop (files s) c = Some xs"
  shows "\<exists>s1 s2. removeFile h c i s = Inr s1 \<and> removeFile h c i s1 = Inr s2
           \<and> get_prop (files s1) c = Some (take i xs @ drop (Suc i) xs)
           \<and> get_prop (files s2) c = Some (take i xs @ drop (Suc (Suc i)) xs)"
proof -
  define ys where "ys = take i xs @ drop (Suc i) xs"
  define s1 where "s1 = s\<lparr>files := spread_set (files s) c ys\<rparr>"
  have first: "removeFile h c i s = Inr s1"
    unfolding s1_def ys_def using assms by (rule removeFile_found)
  have ys: "get_prop (files s1) c = Some ys"
    by (simp add: s1_def get_prop_spread_set_same)
  define s2 where "s2 = s1\<lparr>files := spread_set (files s1) c (take i ys @ drop (Suc i) ys)\<rparr>"
  have second: "removeFile h c i s1 = Inr s2"
    unfolding s2_def using ys by (rule removeFile_found)
  have "take i ys @ drop (Suc i) ys = take i xs @ drop (Suc (Suc i)) xs"
  proof (cases "i < length xs")
    case True
    then show ?thesis by (simp add: ys_def min_def)
  next
    case False
    then show ?thesis by (simp add: ys_def)
  qed
  then have "get_prop (files s2) c = Some (take i xs @ drop (Suc (Suc i)) xs)"
    by (simp add: s2_def get_prop_spread_set_same)
  with first second ys show ?thesis
    unfolding ys_def by blast
qed

text \<open>Removing twice at position 0 of three files.\<close>

theorem removeFile_twice_witness:
  "\<exists>s1 s2. removeFile (sample_host answer_unreachable) Images 0 (staged [''a'', ''b'', ''c''] (JStr '''')) = Inr s1
     \<and> removeFile (sample_host answer_unreachable) Images 0 s1 = Inr s2
     \<and> get_prop (files s1) Images = Some [''b'', ''c'']
     \<and> get_prop (files s2) Images = Some [''c'']"
  using removeFile_twice [of "staged [''a'', ''b'', ''c''] (JStr '''')" Images "[''a'', ''b'', ''c'']"
      "sample_host answer_unreachable" 0]
  by (simp add: staged_def get_prop_def)

text \<open>
  As stated, C9 asks that the second call removes no second element. Of \<open>a, b, c\<close> the
  first call at position 0 removes \<open>a\<close> and the second removes \<open>b\<close>.
\<close>

theorem removeFile_twice_counterexample:
  "removeFile (sample_host answer_unreachable) Images 0 (staged [''a'', ''b'', ''c''] (JStr ''''))
     = Inr (staged [''b'', ''c''] (JStr ''''))
   \<and> removeFile (sample_host answer_unreachable) Images 0 (staged [''b'', ''c''] (JStr ''''))
     = Inr (staged [''c''] (JStr ''''))
   \<and> staged [''c''] (JStr '''') \<noteq> staged [''b'', ''c''] (JStr '''')"
  by (simp add: staged_def get_prop_def removeFile_def filter_index_def)

end
